theory Spec2Isabelle
  imports Main "HOL-Library.AList" "HOL-Library.Sublist"
begin

section \<open>The SSO redirect screen\<close>

text \<open>Source: \<^verbatim>\<open>app/screens/sso/sso_with_redirect_url.tsx\<close>.\<close>

text \<open>
  The screen is a React function component. Its two pieces of local state (\<open>error\<close>,
  \<open>codeVerifier\<close>), the caller-owned \<open>loginError\<close>, the subscriptions it holds on the
  platform (the \<open>Linking\<close> listeners and the pending \<open>setTimeout\<close>) and the trace of
  calls it makes to its collaborators are collected in one record that every handler
  takes and returns. The outcome of an awaited collaborator is an argument of the
  function that continues after the \<open>await\<close>; \<open>init\<close> is given both as a whole and
  cut at its awaits, so that the states in which it is suspended can be named.
\<close>

subsection \<open>JavaScript values\<close>

text \<open>
  An object whose keys and values are strings (the \<open>query\<close> of a parsed URL): its
  properties in the order in which the object enumerates them (integer-like keys
  first, the other keys in insertion order), one entry per key. A property read gives
  \<open>undefined\<close> (\<open>None\<close>) for a missing key.
\<close>

type_synonym js_object = "(string \<times> string) list"

definition get_prop :: "js_object \<Rightarrow> string \<Rightarrow> string option" where
  "get_prop obj k = map_of obj k"

text \<open>Truthiness of a value of type \<open>string | undefined\<close>: a non-empty string.\<close>

definition truthy :: "string option \<Rightarrow> bool" where
  "truthy v = (case v of None \<Rightarrow> False | Some s \<Rightarrow> s \<noteq> [])"

text \<open>
  The value a failed browser launch is rejected with (\<open>e: unknown\<close> in \<open>onError\<close>):
  a falsy value, an object with a string \<open>message\<close>, or anything else.
\<close>

datatype thrown = Falsy | ErrorWithMessage string | OtherValue

text \<open>
  Modelled from the spec: \<open>isErrorWithMessage\<close> of \<open>@utils/errors\<close> is not among the
  sources; it holds of the values that carry a string \<open>message\<close>.
\<close>

fun isErrorWithMessage :: "thrown \<Rightarrow> bool" where
  "isErrorWithMessage (ErrorWithMessage m) = True"
| "isErrorWithMessage e = False"

fun message_of :: "thrown \<Rightarrow> string" where
  "message_of (ErrorWithMessage m) = m"
| "message_of e = []"

text \<open>
  Modelled from the spec: the result of the remote token exchange
  (\<open>fetchSessionTokenFromCodeChallenge\<close> of \<open>@actions/remote/session\<close>, not among the
  sources) is \<open>{token, csrf}\<close> or an error result without a \<open>token\<close> key.
\<close>

datatype exchange_response = TokenResponse string string | ErrorResponse

subsection \<open>The regular expression of \<open>onError\<close>\<close>

text \<open>
  \<open>e.message.match(/no activity found to handle intent/i)\<close>: the pattern has no
  metacharacters, so it matches where the text occurs in the message, letters compared
  without regard to case.
\<close>

definition lower_ascii :: "char \<Rightarrow> char" where
  "lower_ascii c =
     (let n = (of_char c :: nat) in if 65 \<le> n \<and> n \<le> 90 then char_of (n + 32) else c)"

fun occurs_in :: "string \<Rightarrow> string \<Rightarrow> bool" where
  "occurs_in pat [] = (pat = [])"
| "occurs_in pat (c # cs) = (prefix pat (c # cs) \<or> occurs_in pat cs)"

definition match_ignore_case :: "string \<Rightarrow> string \<Rightarrow> bool" where
  "match_ignore_case pat s = occurs_in (map lower_ascii pat) (map lower_ascii s)"

subsection \<open>Props, constants and pure collaborators\<close>

text \<open>
  What the component reads and never writes: its props \<open>loginUrl\<close> and \<open>serverUrl\<close>,
  the constants of \<open>@constants\<close> and \<open>@utils/general\<close>, \<open>Platform.OS\<close>, and the pure
  library functions it calls (\<open>intl.formatMessage\<close> by message id and default text,
  \<open>sha256\<close>, \<open>urlSafeBase64Encode\<close>, \<open>url-parse\<close> with its \<open>query\<close>, \<open>set('query', _)\<close>
  and \<open>toString\<close>, and \<open>qs.stringify\<close>). \<open>'u\<close> is the type of url-parse's objects.
\<close>

record 'u env =
  loginUrl :: string
  serverUrl :: string
  REDIRECT_URL_SCHEME :: string
  REDIRECT_URL_SCHEME_DEV :: string
  isBetaApp :: bool
  platformOS :: string
  formatMessage :: "string \<Rightarrow> string \<Rightarrow> string"
  sha256 :: "string \<Rightarrow> string"
  urlSafeBase64Encode :: "string \<Rightarrow> string"
  urlParse :: "string \<Rightarrow> 'u"
  url_query :: "'u \<Rightarrow> js_object"
  url_set_query :: "'u \<Rightarrow> string \<Rightarrow> 'u"
  url_toString :: "'u \<Rightarrow> string"
  qs_stringify :: "js_object \<Rightarrow> string"

subsection \<open>Calls to collaborators and the component's state\<close>

datatype call =
    DoSSOLogin string string
  | SetLoginError string
  | CreateClient string
  | GenerateSecureRandom nat
  | FetchSessionTokenFromCodeChallenge string string string
  | TryOpenURL string

text \<open>
  \<open>listeners\<close> holds the \<open>onURLChange\<close> closures this screen has registered with
  \<open>Linking\<close> and not removed, each given by the \<open>codeVerifier\<close> it closed over;
  \<open>effectDeps\<close> is the dependency array of the last run of the listener effect
  (\<open>None\<close> before the first run and after the cleanup at unmount); \<open>timeout\<close> says
  whether the timer of the mount effect is pending; \<open>rejections\<close> holds the values
  with which a promise returned by \<open>init\<close> was rejected (its callers, the timer
  callback and \<open>onPress\<close>, drop the promise, so nothing handles them).
\<close>

record state =
  error :: string
  codeVerifier :: "string option"
  loginError :: string
  listeners :: "string option list"
  effectDeps :: "string option option"
  timeout :: bool
  mounted :: bool
  calls :: "call list"
  rejections :: "thrown list"

definition call :: "call \<Rightarrow> state \<Rightarrow> state" where
  "call c st = st\<lparr>calls := calls st @ [c]\<rparr>"

subsection \<open>The redirect URL (lines 71--76)\<close>

definition customUrlScheme :: "'u env \<Rightarrow> string" where
  "customUrlScheme env =
     (if isBetaApp env then REDIRECT_URL_SCHEME_DEV env else REDIRECT_URL_SCHEME env)"

definition redirectUrl :: "'u env \<Rightarrow> string" where
  "redirectUrl env = customUrlScheme env @ ''callback''"

subsection \<open>\<open>init\<close> (lines 77--116)\<close>

definition onError :: "'u env \<Rightarrow> thrown \<Rightarrow> state \<Rightarrow> state" where
  "onError env e st =
     (let message =
        (if e \<noteq> Falsy \<and> platformOS env = ''android'' \<and> isErrorWithMessage e \<and>
            match_ignore_case ''no activity found to handle intent'' (message_of e)
         then formatMessage env ''mobile.oauth.failed_to_open_link_no_browser''
                ''The link failed to open. Please verify that a browser is installed on the device.''
         else formatMessage env ''mobile.oauth.failed_to_open_link''
                ''The link failed to open. Please try again.'')
      in st\<lparr>error := message\<rparr>)"

text \<open>
  Modelled from the spec: \<open>tryOpenURL\<close> of \<open>@utils/url\<close> is not among the sources;
  it attempts to open the URL in the platform browser and, on failure, hands the
  error to the handler it was given. \<open>opn url\<close> is what the platform answers:
  \<open>None\<close> when the link opened, \<open>Some e\<close> when it failed with \<open>e\<close>.
\<close>

definition tryOpenURL ::
  "(string \<Rightarrow> thrown option) \<Rightarrow> string \<Rightarrow> (thrown \<Rightarrow> state \<Rightarrow> state) \<Rightarrow> state \<Rightarrow> state" where
  "tryOpenURL opn url on_error st =
     (case opn url of None \<Rightarrow> call (TryOpenURL url) st
      | Some e \<Rightarrow> on_error e (call (TryOpenURL url) st))"

text \<open>Lines 78--82: the reset done unless \<open>init\<close> is called with \<open>false\<close>.\<close>

definition resetErrorsStep :: "'u env \<Rightarrow> bool \<Rightarrow> state \<Rightarrow> state" where
  "resetErrorsStep env resetErrors st =
     (if resetErrors
      then call (CreateClient (serverUrl env))
             (call (SetLoginError []) (st\<lparr>error := [], loginError := []\<rparr>))
      else st)"

text \<open>Lines 86--87.\<close>

definition codeChallengeOf :: "'u env \<Rightarrow> string \<Rightarrow> string" where
  "codeChallengeOf env verifier = urlSafeBase64Encode env (sha256 env verifier)"

text \<open>
  Lines 88--93: the object spread copies the parsed query, then \<open>redirect_to\<close> and
  \<open>code_challenge\<close> are written. Neither key is integer-like, so each is written
  in place when the key is there and enumerated last otherwise.
\<close>

definition loginQuery :: "'u env \<Rightarrow> string \<Rightarrow> js_object" where
  "loginQuery env codeChallenge =
     AList.update ''code_challenge'' codeChallenge
       (AList.update ''redirect_to'' (redirectUrl env)
          (url_query env (urlParse env (loginUrl env))))"

text \<open>Lines 94--95.\<close>

definition loginUrlWith :: "'u env \<Rightarrow> js_object \<Rightarrow> string" where
  "loginUrlWith env query =
     url_toString env
       (url_set_query env (urlParse env (loginUrl env)) (qs_stringify env query))"

text \<open>
  \<open>init\<close> awaits twice. Lines 78--83 run up to the call of
  \<open>generateSecureRandom(100)\<close>; when that resolves, line 85 stores the verifier and
  line 86 calls \<open>sha256\<close>; when that resolves, lines 87--115 build the URL and open
  it. Other handlers and React's render can run while \<open>init\<close> is suspended.
\<close>

definition initStart :: "'u env \<Rightarrow> bool \<Rightarrow> state \<Rightarrow> state" where
  "initStart env resetErrors st =
     call (GenerateSecureRandom 100) (resetErrorsStep env resetErrors st)"

definition initVerifier :: "string \<Rightarrow> state \<Rightarrow> state" where
  "initVerifier verifier st = st\<lparr>codeVerifier := Some verifier\<rparr>"

definition initOpen ::
  "'u env \<Rightarrow> string \<Rightarrow> (string \<Rightarrow> thrown option) \<Rightarrow> state \<Rightarrow> state" where
  "initOpen env verifier opn st =
     (let codeChallenge = codeChallengeOf env verifier;
          query = loginQuery env codeChallenge;
          url = loginUrlWith env query
      in tryOpenURL opn url (onError env) st)"

text \<open>
  \<open>init\<close> run without interruption. \<open>gen n\<close> is the outcome of
  \<open>generateSecureRandom(n)\<close> in this call: \<open>Inr bytes\<close> when it resolves, \<open>Inl e\<close>
  when it rejects with \<open>e\<close>; then the \<open>await\<close> of line 83 throws, nothing after it
  runs and the promise of \<open>init\<close> is rejected with \<open>e\<close>. \<open>sha256\<close> is taken to
  resolve.
\<close>

definition init ::
  "'u env \<Rightarrow> bool \<Rightarrow> (nat \<Rightarrow> thrown + string) \<Rightarrow> (string \<Rightarrow> thrown option) \<Rightarrow>
     state \<Rightarrow> state" where
  "init env resetErrors gen opn st =
     (let st1 = initStart env resetErrors st
      in case gen 100 of
           Inl e \<Rightarrow> st1\<lparr>rejections := rejections st1 @ [e]\<rparr>
         | Inr verifier \<Rightarrow> initOpen env verifier opn (initVerifier verifier st1))"

subsection \<open>\<open>onURLChange\<close> (lines 119--143)\<close>

text \<open>Lines 132--141.\<close>

definition loginOrFail :: "'u env \<Rightarrow> string option \<Rightarrow> string option \<Rightarrow> state \<Rightarrow> state" where
  "loginOrFail env bearerToken csrfToken st =
     (case (bearerToken, csrfToken) of
        (Some b, Some c) \<Rightarrow>
          if truthy bearerToken \<and> truthy csrfToken then call (DoSSOLogin b c) st
          else st\<lparr>error := formatMessage env ''mobile.oauth.failed_to_login''
                   ''Your login attempt failed. Please try again.''\<rparr>
      | _ \<Rightarrow> st\<lparr>error := formatMessage env ''mobile.oauth.failed_to_login''
                   ''Your login attempt failed. Please try again.''\<rparr>)"

text \<open>
  \<open>cv\<close> is the \<open>codeVerifier\<close> the closure was created with; \<open>fetch\<close> is what
  \<open>fetchSessionTokenFromCodeChallenge\<close> resolves to in this call.
\<close>

definition onURLChange ::
  "'u env \<Rightarrow> string option \<Rightarrow> (string \<Rightarrow> string \<Rightarrow> string \<Rightarrow> exchange_response) \<Rightarrow>
     string \<Rightarrow> state \<Rightarrow> state" where
  "onURLChange env cv fetch url st =
     (if url \<noteq> [] \<and> prefix (redirectUrl env) url then
        let parsedUrl = urlParse env url;
            bearerToken = get_prop (url_query env parsedUrl) ''MMAUTHTOKEN'';
            csrfToken = get_prop (url_query env parsedUrl) ''MMCSRF'';
            codeChallengeToken = get_prop (url_query env parsedUrl) ''MMCHALLENGETOKEN''
        in (case (codeChallengeToken, cv) of
              (Some challenge, Some verifier) \<Rightarrow>
                if truthy codeChallengeToken \<and> truthy cv then
                  (let st1 = call (FetchSessionTokenFromCodeChallenge
                                     (serverUrl env) challenge verifier) st
                   in case fetch (serverUrl env) challenge verifier of
                        TokenResponse token csrf \<Rightarrow> loginOrFail env (Some token) (Some csrf) st1
                      | ErrorResponse \<Rightarrow> loginOrFail env bearerToken csrfToken st1)
                else loginOrFail env bearerToken csrfToken st
            | _ \<Rightarrow> loginOrFail env bearerToken csrfToken st)
      else st)"

subsection \<open>The effects (lines 118--159) and the rendered text (lines 166--176)\<close>

text \<open>
  The listener effect has the dependency array \<open>[codeVerifier]\<close>: React runs it after
  the first render and after every render in which \<open>codeVerifier\<close> differs from the
  value of the last run, and before each re-run it runs the cleanup of the last run,
  which removes the listener that run had added.
\<close>

definition listenerEffect :: "state \<Rightarrow> state" where
  "listenerEffect st =
     (case effectDeps st of
        None \<Rightarrow> st\<lparr>listeners := listeners st @ [codeVerifier st],
                   effectDeps := Some (codeVerifier st)\<rparr>
      | Some d \<Rightarrow>
          if d = codeVerifier st then st
          else st\<lparr>listeners := remove1 d (listeners st) @ [codeVerifier st],
                  effectDeps := Some (codeVerifier st)\<rparr>)"

definition render :: "state \<Rightarrow> state" where
  "render st = (if mounted st then listenerEffect st else st)"

text \<open>
  The first render with the caller's \<open>loginError\<close>: both effects run, the second
  one (dependency array \<open>[]\<close>) starts the timer.
\<close>

definition mount :: "string \<Rightarrow> state" where
  "mount le =
     (listenerEffect
        \<lparr>error = [], codeVerifier = None, loginError = le, listeners = [],
         effectDeps = None, timeout = False, mounted = True, calls = [],
         rejections = []\<rparr>)
     \<lparr>timeout := True\<rparr>"

text \<open>Unmounting runs both cleanups: \<open>listener.remove()\<close> and \<open>clearTimeout\<close>.\<close>

definition unmount :: "state \<Rightarrow> state" where
  "unmount st =
     (case effectDeps st of
        None \<Rightarrow> st\<lparr>timeout := False, mounted := False\<rparr>
      | Some d \<Rightarrow> st\<lparr>listeners := remove1 d (listeners st), effectDeps := None,
                     timeout := False, mounted := False\<rparr>)"

definition showsError :: "state \<Rightarrow> bool" where
  "showsError st = (loginError st \<noteq> [] \<or> error st \<noteq> [])"

text \<open>
  Lines 166--176: the text of the error view, \<open>`${loginError || error}.`\<close>, or
  \<open>None\<close> when the screen shows the ``Redirecting...'' view.
\<close>

definition displayedError :: "state \<Rightarrow> string option" where
  "displayedError st =
     (if showsError st
      then Some ((if loginError st \<noteq> [] then loginError st else error st) @ ''.'')
      else None)"

subsection \<open>Events\<close>

text \<open>
  What can happen to a mounted screen: the platform delivers a URL to the registered
  listeners, the timer of the mount effect fires, the user presses ``Try again''
  (the button is rendered only with an error), the caller renders the screen with
  another \<open>loginError\<close>, the screen is unmounted. Each event carries the outcomes of
  the collaborators awaited while it is handled. \<open>step\<close> takes the case in which
  nothing comes between: the handler runs to its end and React renders after it. The
  states in which \<open>init\<close> is suspended while something else runs are those of
  \<open>initStart\<close> and \<open>initVerifier\<close>.
\<close>

datatype event =
    UrlOpen string "string \<Rightarrow> string \<Rightarrow> string \<Rightarrow> exchange_response"
  | TimerFire "nat \<Rightarrow> thrown + string" "string \<Rightarrow> thrown option"
  | PressTryAgain "nat \<Rightarrow> thrown + string" "string \<Rightarrow> thrown option"
  | LoginErrorProp string
  | Unmount

definition deliver ::
  "'u env \<Rightarrow> (string \<Rightarrow> string \<Rightarrow> string \<Rightarrow> exchange_response) \<Rightarrow> string \<Rightarrow> state \<Rightarrow> state" where
  "deliver env fetch url st =
     foldl (\<lambda>s cv. onURLChange env cv fetch url s) st (listeners st)"

fun handle :: "'u env \<Rightarrow> state \<Rightarrow> event \<Rightarrow> state" where
  "handle env st (UrlOpen url fetch) = deliver env fetch url st"
| "handle env st (TimerFire gen opn) =
     (if timeout st then init env False gen opn (st\<lparr>timeout := False\<rparr>) else st)"
| "handle env st (PressTryAgain gen opn) =
     (if mounted st \<and> showsError st then init env True gen opn st else st)"
| "handle env st (LoginErrorProp le) = (if mounted st then st\<lparr>loginError := le\<rparr> else st)"
| "handle env st Unmount = unmount st"

definition step :: "'u env \<Rightarrow> state \<Rightarrow> event \<Rightarrow> state" where
  "step env st ev = render (handle env st ev)"

definition run :: "'u env \<Rightarrow> state \<Rightarrow> event list \<Rightarrow> state" where
  "run env st evs = foldl (step env) st evs"

subsection \<open>Invariants of the subscriptions\<close>

text \<open>
  Between events (every handler run to its end and rendered), a mounted screen holds
  exactly one listener, the closure over the current \<open>codeVerifier\<close>; an unmounted
  one holds none and has no timer pending.
\<close>

definition armed :: "state \<Rightarrow> bool" where
  "armed st =
     (mounted st \<and> listeners st = [codeVerifier st] \<and> effectDeps st = Some (codeVerifier st))"

definition torn_down :: "state \<Rightarrow> bool" where
  "torn_down st =
     (\<not> mounted st \<and> listeners st = [] \<and> effectDeps st = None \<and> \<not> timeout st)"

subsection \<open>What is asked of url-parse and \<open>qs.stringify\<close>\<close>

text \<open>
  The two libraries are parameters. Where a property speaks of the parameters in the
  URL that \<open>init\<close> builds, it is read through url-parse itself, for collaborators
  that read back what they were given: parsing the URL obtained from the parsed
  \<open>loginUrl\<close> by \<open>set('query', qs.stringify(query))\<close> and \<open>toString()\<close> gives
  \<open>query\<close> again.
\<close>

definition reads_back :: "'u env \<Rightarrow> js_object \<Rightarrow> bool" where
  "reads_back env query =
     (url_query env (urlParse env
        (url_toString env
           (url_set_query env (urlParse env (loginUrl env)) (qs_stringify env query))))
      = query)"

subsection \<open>Sample collaborators\<close>

text \<open>
  Stand-ins for the collaborators, to run the definitions on the URLs of the
  scenarios: a parser that knows these URLs by table (the text before \<open>?\<close>, the query
  object and the query string) and reads the \<open>code_challenge\<close> off the login URL that
  the stand-ins build, a \<open>stringify\<close> that joins \<open>key=value\<close> with \<open>&\<close>, tagged
  stand-ins for the hash and the encoder, and messages formatted to their default
  text.
\<close>

type_synonym sample_url = "string \<times> js_object \<times> string"

fun sample_stringify :: "js_object \<Rightarrow> string" where
  "sample_stringify [] = []"
| "sample_stringify [(k, v)] = k @ ''='' @ v"
| "sample_stringify ((k, v) # kvs) = k @ ''='' @ v @ ''&'' @ sample_stringify kvs"

fun strip_prefix :: "string \<Rightarrow> string \<Rightarrow> string option" where
  "strip_prefix [] s = Some s"
| "strip_prefix (p # ps) [] = None"
| "strip_prefix (p # ps) (c # cs) = (if p = c then strip_prefix ps cs else None)"

definition sample_parse :: "string \<Rightarrow> sample_url" where
  "sample_parse url =
     (case strip_prefix
        ''https://example.com/oauth/authorize?client_id=abc&redirect_to=mmauth-beta://callback&code_challenge=''
        url of
      Some challenge \<Rightarrow>
        (''https://example.com/oauth/authorize'',
         [(''client_id'', ''abc''), (''redirect_to'', ''mmauth-beta://callback''),
          (''code_challenge'', challenge)],
         ''client_id=abc&redirect_to=mmauth-beta://callback&code_challenge='' @ challenge)
    | None \<Rightarrow>
      if url = ''https://example.com/oauth/authorize?client_id=abc''
      then (''https://example.com/oauth/authorize'', [(''client_id'', ''abc'')], ''client_id=abc'')
      else if url = ''https://example.com/oauth/authorize?redirect_to=elsewhere''
      then (''https://example.com/oauth/authorize'', [(''redirect_to'', ''elsewhere'')],
            ''redirect_to=elsewhere'')
      else if url = ''mmauth-beta://callback?MMAUTHTOKEN=tok1&MMCSRF=csrf1''
      then (''mmauth-beta://callback'', [(''MMAUTHTOKEN'', ''tok1''), (''MMCSRF'', ''csrf1'')],
            ''MMAUTHTOKEN=tok1&MMCSRF=csrf1'')
      else if url = ''mmauth-beta://callback?MMCHALLENGETOKEN=chal1''
      then (''mmauth-beta://callback'', [(''MMCHALLENGETOKEN'', ''chal1'')],
            ''MMCHALLENGETOKEN=chal1'')
      else if url = ''mmauth-beta://callback?MMAUTHTOKEN=tok1&MMCSRF=csrf1&MMCHALLENGETOKEN=chal1''
      then (''mmauth-beta://callback'',
            [(''MMAUTHTOKEN'', ''tok1''), (''MMCSRF'', ''csrf1''), (''MMCHALLENGETOKEN'', ''chal1'')],
            ''MMAUTHTOKEN=tok1&MMCSRF=csrf1&MMCHALLENGETOKEN=chal1'')
      else (url, [], []))"

definition sample_env :: "sample_url env" where
  "sample_env =
     \<lparr>loginUrl = ''https://example.com/oauth/authorize?client_id=abc'',
      serverUrl = ''https://example.com'',
      REDIRECT_URL_SCHEME = ''mmauth://'',
      REDIRECT_URL_SCHEME_DEV = ''mmauth-beta://'',
      isBetaApp = True,
      platformOS = ''android'',
      formatMessage = (\<lambda>id defaultMessage. defaultMessage),
      sha256 = (\<lambda>s. ''sha256:'' @ s),
      urlSafeBase64Encode = (\<lambda>s. ''b64:'' @ s),
      urlParse = sample_parse,
      url_query = (\<lambda>(b, q, s). q),
      url_set_query = (\<lambda>(b, q, s) s'. (b, q, s')),
      url_toString = (\<lambda>(b, q, s). if s = [] then b else b @ ''?'' @ s),
      qs_stringify = sample_stringify\<rparr>"

text \<open>Answers of the awaited collaborators: the exchange, the random source, the launcher.\<close>

definition exchange_gives ::
  "exchange_response \<Rightarrow> string \<Rightarrow> string \<Rightarrow> string \<Rightarrow> exchange_response" where
  "exchange_gives r server challenge verifier = r"

definition random_string :: "nat \<Rightarrow> string" where
  "random_string n = replicate n (CHR ''r'')"

definition random_bytes :: "nat \<Rightarrow> thrown + string" where
  "random_bytes n = Inr (random_string n)"

definition other_string :: "nat \<Rightarrow> string" where
  "other_string n = replicate n (CHR ''q'')"

definition rejects :: "thrown \<Rightarrow> nat \<Rightarrow> thrown + string" where
  "rejects e n = Inl e"

definition opens :: "string \<Rightarrow> thrown option" where
  "opens url = None"

definition fails_with :: "thrown \<Rightarrow> string \<Rightarrow> thrown option" where
  "fails_with e url = Some e"

text \<open>
  Two states of the sample screen: after a first attempt whose browser launch failed,
  and in the retry that follows, with \<open>init\<close> suspended at line 86 (the new verifier
  stored, \<open>sha256\<close> awaited) and React not yet rendered.
\<close>

definition first_attempt_failed :: state where
  "first_attempt_failed =
     step sample_env (mount []) (TimerFire random_bytes (fails_with OtherValue))"

definition retry_suspended :: state where
  "retry_suspended =
     initVerifier (other_string 100) (initStart sample_env True first_attempt_failed)"

section \<open>Properties\<close>

subsection \<open>What the handlers leave alone\<close>

lemma foldl_unchanged:
  "(\<And>x. x \<in> set xs \<Longrightarrow> f s x = s) \<Longrightarrow> foldl f s xs = s"
  by (induction xs) simp_all

lemma loginOrFail_frame:
  "mounted (loginOrFail env b c st) = mounted st"
  "listeners (loginOrFail env b c st) = listeners st"
  "effectDeps (loginOrFail env b c st) = effectDeps st"
  "codeVerifier (loginOrFail env b c st) = codeVerifier st"
  "timeout (loginOrFail env b c st) = timeout st"
  "loginError (loginOrFail env b c st) = loginError st"
  "rejections (loginOrFail env b c st) = rejections st"
  by (simp_all add: loginOrFail_def call_def split: option.splits)

lemma onURLChange_frame:
  "mounted (onURLChange env cv fetch url st) = mounted st"
  "listeners (onURLChange env cv fetch url st) = listeners st"
  "effectDeps (onURLChange env cv fetch url st) = effectDeps st"
  "codeVerifier (onURLChange env cv fetch url st) = codeVerifier st"
  "timeout (onURLChange env cv fetch url st) = timeout st"
  "loginError (onURLChange env cv fetch url st) = loginError st"
  "rejections (onURLChange env cv fetch url st) = rejections st"
  by (simp_all add: onURLChange_def loginOrFail_frame call_def Let_def
        split: option.splits exchange_response.splits)

lemma tryOpenURL_onError_frame:
  "mounted (tryOpenURL opn url (onError env) st) = mounted st"
  "listeners (tryOpenURL opn url (onError env) st) = listeners st"
  "effectDeps (tryOpenURL opn url (onError env) st) = effectDeps st"
  "codeVerifier (tryOpenURL opn url (onError env) st) = codeVerifier st"
  "timeout (tryOpenURL opn url (onError env) st) = timeout st"
  "loginError (tryOpenURL opn url (onError env) st) = loginError st"
  "rejections (tryOpenURL opn url (onError env) st) = rejections st"
  by (simp_all add: tryOpenURL_def onError_def call_def Let_def split: option.splits)

lemma initStart_frame:
  "mounted (initStart env r st) = mounted st"
  "listeners (initStart env r st) = listeners st"
  "effectDeps (initStart env r st) = effectDeps st"
  "codeVerifier (initStart env r st) = codeVerifier st"
  "timeout (initStart env r st) = timeout st"
  "rejections (initStart env r st) = rejections st"
  "loginError (initStart env r st) = (if r then [] else loginError st)"
  by (simp_all add: initStart_def resetErrorsStep_def call_def)

lemma initOpen_frame:
  "mounted (initOpen env v opn st) = mounted st"
  "listeners (initOpen env v opn st) = listeners st"
  "effectDeps (initOpen env v opn st) = effectDeps st"
  "codeVerifier (initOpen env v opn st) = codeVerifier st"
  "timeout (initOpen env v opn st) = timeout st"
  "loginError (initOpen env v opn st) = loginError st"
  "rejections (initOpen env v opn st) = rejections st"
  by (simp_all add: initOpen_def Let_def tryOpenURL_onError_frame)

lemma init_resolved:
  "gen 100 = Inr verifier \<Longrightarrow>
   init env r gen opn st = initOpen env verifier opn (initVerifier verifier (initStart env r st))"
  by (simp add: init_def Let_def)

lemma init_rejected:
  "gen 100 = Inl e \<Longrightarrow>
   init env r gen opn st = (initStart env r st)\<lparr>rejections := rejections st @ [e]\<rparr>"
  by (simp add: init_def Let_def initStart_frame)

lemma init_frame:
  "mounted (init env r gen opn st) = mounted st"
  "listeners (init env r gen opn st) = listeners st"
  "effectDeps (init env r gen opn st) = effectDeps st"
  "timeout (init env r gen opn st) = timeout st"
  "loginError (init env r gen opn st) = (if r then [] else loginError st)"
  "codeVerifier (init env r gen opn st) =
     (case gen 100 of Inl e \<Rightarrow> codeVerifier st | Inr verifier \<Rightarrow> Some verifier)"
  by (simp_all add: init_def Let_def initOpen_frame initStart_frame initVerifier_def
        split: sum.splits)

lemma deliver_armed:
  "listeners st = [cv] \<Longrightarrow> deliver env fetch url st = onURLChange env cv fetch url st"
  by (simp add: deliver_def)

lemma armed_mount: "armed (mount le)"
  by (simp add: armed_def mount_def listenerEffect_def)

lemma torn_down_step: "torn_down st \<Longrightarrow> step env st ev = st"
  by (cases ev) (simp_all add: torn_down_def step_def render_def deliver_def unmount_def)

lemma armed_step: "armed st \<Longrightarrow> armed (step env st ev) \<or> torn_down (step env st ev)"
proof (cases ev)
  case (UrlOpen url fetch)
  assume "armed st"
  then show ?thesis
    by (simp add: UrlOpen armed_def step_def render_def listenerEffect_def
          deliver_armed onURLChange_frame)
next
  case (TimerFire gen opn)
  assume "armed st"
  then show ?thesis
    by (simp add: TimerFire armed_def step_def render_def listenerEffect_def init_frame
          split: sum.splits)
next
  case (PressTryAgain gen opn)
  assume "armed st"
  then show ?thesis
    by (simp add: PressTryAgain armed_def step_def render_def listenerEffect_def init_frame
          split: sum.splits)
next
  case (LoginErrorProp le)
  assume "armed st"
  then show ?thesis
    by (simp add: LoginErrorProp armed_def step_def render_def listenerEffect_def)
next
  case Unmount
  assume "armed st"
  then show ?thesis
    by (simp add: Unmount armed_def torn_down_def step_def render_def unmount_def)
qed

lemma run_append: "run env st (evs @ evs') = run env (run env st evs) evs'"
  by (simp add: run_def)

lemma run_torn_down: "torn_down st \<Longrightarrow> run env st evs = st"
  by (induction evs) (simp_all add: run_def torn_down_step)

lemma reachable_armed_or_torn_down:
  "armed (run env (mount le) evs) \<or> torn_down (run env (mount le) evs)"
proof (induction evs rule: rev_induct)
  case Nil
  show ?case by (simp add: run_def armed_mount)
next
  case (snoc ev evs)
  then show ?case
    using armed_step [of "run env (mount le) evs" env ev]
      torn_down_step [of "run env (mount le) evs" env ev]
    by (auto simp add: run_def)
qed

subsection \<open>The branches of \<open>onURLChange\<close>\<close>

lemma redirectUrl_nonempty: "prefix (redirectUrl env) url \<Longrightarrow> url \<noteq> []"
  by (auto simp add: redirectUrl_def)

lemma onURLChange_exchange:
  assumes "prefix (redirectUrl env) url"
    and "q = url_query env (urlParse env url)"
    and "get_prop q ''MMCHALLENGETOKEN'' = Some challenge" "challenge \<noteq> []" "verifier \<noteq> []"
    and "st1 = call (FetchSessionTokenFromCodeChallenge (serverUrl env) challenge verifier) st"
  shows "onURLChange env (Some verifier) fetch url st =
     (case fetch (serverUrl env) challenge verifier of
        TokenResponse token csrf \<Rightarrow> loginOrFail env (Some token) (Some csrf) st1
      | ErrorResponse \<Rightarrow>
          loginOrFail env (get_prop q ''MMAUTHTOKEN'') (get_prop q ''MMCSRF'') st1)"
  using assms redirectUrl_nonempty [of env url]
  by (clarsimp simp add: onURLChange_def truthy_def Let_def)

lemma onURLChange_direct:
  assumes "prefix (redirectUrl env) url"
    and "q = url_query env (urlParse env url)"
    and "\<not> (truthy (get_prop q ''MMCHALLENGETOKEN'') \<and> truthy cv)"
  shows "onURLChange env cv fetch url st =
          loginOrFail env (get_prop q ''MMAUTHTOKEN'') (get_prop q ''MMCSRF'') st"
  using assms redirectUrl_nonempty [of env url]
  by (auto simp add: onURLChange_def Let_def split: option.splits)

lemma loginOrFail_Some:
  "loginOrFail env (Some b) (Some c) st =
     (if b \<noteq> [] \<and> c \<noteq> [] then call (DoSSOLogin b c) st
      else st\<lparr>error := formatMessage env ''mobile.oauth.failed_to_login''
                 ''Your login attempt failed. Please try again.''\<rparr>)"
  by (simp add: loginOrFail_def truthy_def)


subsection \<open>The sample collaborators, evaluated\<close>

lemma sample_redirectUrl: "redirectUrl sample_env = ''mmauth-beta://callback''"
  by (simp add: redirectUrl_def customUrlScheme_def sample_env_def)

lemma sample_query:
  "url_query sample_env (urlParse sample_env url) = fst (snd (sample_parse url))"
  by (simp add: sample_env_def split: prod.splits)

lemma sample_challenge_query:
  "url_query sample_env (urlParse sample_env ''mmauth-beta://callback?MMCHALLENGETOKEN=chal1'')
     = [(''MMCHALLENGETOKEN'', ''chal1'')]"
  by (simp add: sample_query sample_parse_def)

lemma sample_serverUrl: "serverUrl sample_env = ''https://example.com''"
  by (simp add: sample_env_def)

lemma sample_formatMessage: "formatMessage sample_env i d = d"
  by (simp add: sample_env_def)

lemma sample_direct_query:
  "url_query sample_env
     (urlParse sample_env ''mmauth-beta://callback?MMAUTHTOKEN=tok1&MMCSRF=csrf1'')
     = [(''MMAUTHTOKEN'', ''tok1''), (''MMCSRF'', ''csrf1'')]"
  by (simp add: sample_query sample_parse_def)

lemma sample_all_query:
  "url_query sample_env (urlParse sample_env
      ''mmauth-beta://callback?MMAUTHTOKEN=tok1&MMCSRF=csrf1&MMCHALLENGETOKEN=chal1'')
     = [(''MMAUTHTOKEN'', ''tok1''), (''MMCSRF'', ''csrf1''), (''MMCHALLENGETOKEN'', ''chal1'')]"
  by (simp add: sample_query sample_parse_def)

lemma sample_login_query:
  "url_query sample_env (urlParse sample_env (loginUrl sample_env)) = [(''client_id'', ''abc'')]"
  by (simp add: sample_query sample_parse_def sample_env_def [THEN arg_cong [of _ _ loginUrl]])

lemma sample_loginUrlWith:
  "loginUrlWith sample_env
     [(''client_id'', ''abc''), (''redirect_to'', ''mmauth-beta://callback''),
      (''code_challenge'', ch)] =
   ''https://example.com/oauth/authorize?client_id=abc&redirect_to=mmauth-beta://callback&code_challenge=''
     @ ch"
  by (simp add: loginUrlWith_def sample_env_def sample_parse_def)

lemma strip_prefix_append: "strip_prefix p (p @ s) = Some s"
  by (induction p) simp_all

lemma sample_built_query:
  "url_query sample_env (urlParse sample_env
     (''https://example.com/oauth/authorize?client_id=abc&redirect_to=mmauth-beta://callback&code_challenge=''
        @ ch)) =
   [(''client_id'', ''abc''), (''redirect_to'', ''mmauth-beta://callback''),
    (''code_challenge'', ch)]"
  by (simp only: sample_query sample_parse_def strip_prefix_append) simp

lemma sample_loginQuery:
  "loginQuery sample_env ch =
     [(''client_id'', ''abc''), (''redirect_to'', ''mmauth-beta://callback''),
      (''code_challenge'', ch)]"
  by (simp add: loginQuery_def sample_login_query sample_redirectUrl)

lemma sample_codeChallengeOf: "codeChallengeOf sample_env v = ''b64:sha256:'' @ v"
  by (simp add: codeChallengeOf_def sample_env_def)

lemma no_activity_matches:
  "match_ignore_case ''no activity found to handle intent''
     ''No Activity found to handle Intent { act=android.intent.action.VIEW }''"
  by code_simp

subsection \<open>The calls and the query of \<open>init\<close>\<close>

lemma calls_tryOpenURL:
  "calls (tryOpenURL opn url (onError env) st) = calls st @ [TryOpenURL url]"
  by (simp add: tryOpenURL_def onError_def call_def Let_def split: option.splits)

lemma calls_initOpen:
  "calls (initOpen env v opn st) =
     calls st @ [TryOpenURL (loginUrlWith env (loginQuery env (codeChallengeOf env v)))]"
  by (simp add: initOpen_def Let_def calls_tryOpenURL)

lemma calls_init_resolved:
  "gen 100 = Inr v \<Longrightarrow>
   calls (init env r gen opn st) =
     calls (resetErrorsStep env r st) @
       [GenerateSecureRandom 100,
        TryOpenURL (loginUrlWith env (loginQuery env (codeChallengeOf env v)))]"
  by (simp add: init_resolved calls_initOpen initVerifier_def initStart_def call_def)

lemma calls_init_rejected:
  "gen 100 = Inl e \<Longrightarrow>
   calls (init env r gen opn st) =
     calls (resetErrorsStep env r st) @ [GenerateSecureRandom 100]"
  by (simp add: init_rejected initStart_def call_def)

lemma init_launch_failed:
  assumes "gen 100 = Inr v"
    and "opn (loginUrlWith env (loginQuery env (codeChallengeOf env v))) = Some e"
  shows "error (init env r gen opn st) = error (onError env e st)"
  using assms
  by (simp add: init_resolved initOpen_def Let_def tryOpenURL_def onError_def)

lemma rejections_init_resolved:
  "gen 100 = Inr v \<Longrightarrow> rejections (init env r gen opn st) = rejections st"
  by (simp add: init_resolved initOpen_frame initVerifier_def initStart_frame)

lemma loginQuery_code_challenge:
  "get_prop (loginQuery env ch) ''code_challenge'' = Some ch"
  by (simp add: loginQuery_def get_prop_def update_conv')

lemma loginQuery_redirect_to:
  "get_prop (loginQuery env ch) ''redirect_to'' = Some (redirectUrl env)"
  by (simp add: loginQuery_def get_prop_def update_conv')

lemma loginQuery_other:
  "k \<noteq> ''redirect_to'' \<Longrightarrow> k \<noteq> ''code_challenge'' \<Longrightarrow>
   get_prop (loginQuery env ch) k = get_prop (url_query env (urlParse env (loginUrl env))) k"
  by (simp add: loginQuery_def get_prop_def update_conv')

lemma loginQuery_keys:
  "set (map fst (loginQuery env ch)) =
     set (map fst (url_query env (urlParse env (loginUrl env)))) \<union>
       {''redirect_to'', ''code_challenge''}"
  using dom_update [of "''code_challenge''" ch "AList.update ''redirect_to'' (redirectUrl env)
          (url_query env (urlParse env (loginUrl env)))"]
    dom_update [of "''redirect_to''" "redirectUrl env" "url_query env (urlParse env (loginUrl env))"]
  by (auto simp add: loginQuery_def)

lemma loginQuery_distinct:
  "distinct (map fst (url_query env (urlParse env (loginUrl env)))) \<Longrightarrow>
   distinct (map fst (loginQuery env ch))"
  by (simp add: loginQuery_def distinct_update)

lemma reads_back_url:
  "reads_back env query \<Longrightarrow> url_query env (urlParse env (loginUrlWith env query)) = query"
  by (simp add: reads_back_def loginUrlWith_def)

lemma sample_reads_back: "reads_back sample_env (loginQuery sample_env ch)"
  using sample_built_query [of ch] sample_loginUrlWith [of ch]
  by (simp add: reads_back_def sample_loginQuery loginUrlWith_def)

subsection \<open>Steps of an armed screen\<close>

lemma render_armed: "armed st \<Longrightarrow> render st = st"
  by (simp add: armed_def render_def listenerEffect_def)

lemma render_reachable: "render (run env (mount le) evs) = run env (mount le) evs"
  using reachable_armed_or_torn_down [of env le evs]
  by (auto simp add: render_armed) (simp add: render_def torn_down_def)

lemma mounted_reachable_armed:
  "mounted (run env (mount le) evs) \<Longrightarrow> armed (run env (mount le) evs)"
  using reachable_armed_or_torn_down [of env le evs]
  by (auto simp add: torn_down_def)

lemma armed_call: "armed st \<Longrightarrow> armed (call c st)"
  by (simp add: armed_def call_def)

lemma step_UrlOpen_armed:
  "armed st \<Longrightarrow>
   step env st (UrlOpen url fetch) = onURLChange env (codeVerifier st) fetch url st"
  by (simp add: step_def armed_def deliver_armed render_def listenerEffect_def onURLChange_frame)

lemma armed_unmount: "armed st \<Longrightarrow> torn_down (step env st Unmount)"
  by (simp add: armed_def torn_down_def step_def render_def unmount_def)

lemma unmount_torn_down:
  "torn_down (run env (mount le) (evs @ [Unmount]))"
  using reachable_armed_or_torn_down [of env le evs]
    armed_unmount [of "run env (mount le) evs" env]
    torn_down_step [of "run env (mount le) evs" env Unmount]
  by (auto simp add: run_def)

lemma suspended_then_rendered:
  assumes "armed st" and "st1 = initVerifier verifier (initStart env r st)"
  shows "codeVerifier st1 = Some verifier" and "listeners st1 = [codeVerifier st]"
    and "armed (render st1)" and "listeners (render st1) = [Some verifier]"
    and "codeVerifier (render st1) = Some verifier" and "calls (render st1) = calls st1"
  using assms
  by (simp_all add: armed_def render_def listenerEffect_def initVerifier_def initStart_frame)

lemma render_initOpen: "render (initOpen env v opn st) = initOpen env v opn (render st)"
  by (simp add: render_def listenerEffect_def initOpen_def Let_def tryOpenURL_def onError_def
        call_def split: option.splits)

lemma attempt_step:
  assumes "armed st" and "gen 100 = Inr verifier"
    and "ev = TimerFire gen opn \<and> timeout st \<or> ev = PressTryAgain gen opn \<and> showsError st"
  shows "armed (step env st ev) \<and> codeVerifier (step env st ev) = Some verifier
     \<and> listeners (step env st ev) = [Some verifier]"
proof -
  have a: "armed (st\<lparr>timeout := False\<rparr>)"
    using assms(1) by (simp add: armed_def)
  from assms(3) consider
      (timer) "ev = TimerFire gen opn" "timeout st"
    | (press) "ev = PressTryAgain gen opn" "showsError st"
    by blast
  then show ?thesis
  proof cases
    case timer
    then show ?thesis
      using suspended_then_rendered(3-5) [OF a refl, of verifier env False] assms(2)
      by (simp add: step_def init_resolved render_initOpen initOpen_frame armed_def)
  next
    case press
    then show ?thesis
      using suspended_then_rendered(3-5) [OF assms(1) refl, of verifier env True] assms(1,2)
      by (simp add: step_def init_resolved render_initOpen initOpen_frame armed_def)
  qed
qed

lemma calls_loginOrFail:
  "\<exists>rest. calls (loginOrFail env b c st) = calls st @ rest \<and>
      (\<forall>s t v. FetchSessionTokenFromCodeChallenge s t v \<notin> set rest)"
  by (auto simp add: loginOrFail_def call_def split: option.splits)

lemma exchange_call_made:
  assumes "prefix (redirectUrl env) url"
    and "get_prop (url_query env (urlParse env url)) ''MMCHALLENGETOKEN'' = Some challenge"
    and "challenge \<noteq> []" and "verifier \<noteq> []"
  shows "\<exists>rest. calls (onURLChange env (Some verifier) fetch url st) =
           calls st @ FetchSessionTokenFromCodeChallenge (serverUrl env) challenge verifier # rest
         \<and> (\<forall>s t v. FetchSessionTokenFromCodeChallenge s t v \<notin> set rest)"
proof -
  let ?st1 = "call (FetchSessionTokenFromCodeChallenge (serverUrl env) challenge verifier) st"
  obtain b c where "onURLChange env (Some verifier) fetch url st = loginOrFail env b c ?st1"
    using onURLChange_exchange [OF assms(1) refl assms(2-4) refl, of fetch st]
    by (cases "fetch (serverUrl env) challenge verifier") simp_all
  then show ?thesis
    using calls_loginOrFail [of env b c ?st1] by (auto simp add: call_def)
qed

lemma direct_login_step:
  assumes "prefix (redirectUrl env) url"
    and "get_prop (url_query env (urlParse env url)) ''MMAUTHTOKEN'' = Some bearer" "bearer \<noteq> []"
    and "get_prop (url_query env (urlParse env url)) ''MMCSRF'' = Some csrf" "csrf \<noteq> []"
    and "\<not> (truthy (get_prop (url_query env (urlParse env url)) ''MMCHALLENGETOKEN'') \<and> truthy cv)"
  shows "onURLChange env cv fetch url st = call (DoSSOLogin bearer csrf) st"
  using onURLChange_direct [OF assms(1) refl assms(6), of fetch st] assms(2-5)
  by (simp add: loginOrFail_Some)

lemma direct_login_run:
  assumes "prefix (redirectUrl env) url"
    and "get_prop (url_query env (urlParse env url)) ''MMAUTHTOKEN'' = Some bearer" "bearer \<noteq> []"
    and "get_prop (url_query env (urlParse env url)) ''MMCSRF'' = Some csrf" "csrf \<noteq> []"
    and "\<not> (truthy (get_prop (url_query env (urlParse env url)) ''MMCHALLENGETOKEN'') \<and> truthy cv)"
  shows "armed st \<Longrightarrow> codeVerifier st = cv \<Longrightarrow>
     armed (run env st (replicate n (UrlOpen url fetch))) \<and>
     calls (run env st (replicate n (UrlOpen url fetch))) =
       calls st @ replicate n (DoSSOLogin bearer csrf)"
proof (induction n arbitrary: st)
  case 0
  then show ?case by (simp add: run_def)
next
  case (Suc n)
  have s: "step env st (UrlOpen url fetch) = call (DoSSOLogin bearer csrf) st"
    using Suc.prems direct_login_step [OF assms, of fetch st]
    by (simp add: step_UrlOpen_armed)
  have "armed (call (DoSSOLogin bearer csrf) st)"
    and "codeVerifier (call (DoSSOLogin bearer csrf) st) = cv"
    using Suc.prems by (simp_all add: armed_call) (simp add: call_def)
  from Suc.IH [OF this] show ?case
    by (simp add: run_def s call_def replicate_append_same)
qed

subsection \<open>The timer is never started again\<close>

lemma deliver_frame:
  "timeout (foldl (\<lambda>s cv. onURLChange env cv fetch url s) st cvs) = timeout st"
  by (induction cvs arbitrary: st) (simp_all add: onURLChange_frame)

lemma render_timeout: "timeout (render st) = timeout st"
  by (simp add: render_def listenerEffect_def split: option.splits)

lemma render_loginError: "loginError (render st) = loginError st"
  by (simp add: render_def listenerEffect_def split: option.splits)

lemma no_rearm: "\<not> timeout st \<Longrightarrow> \<not> timeout (step env st ev)"
  by (cases ev)
     (simp_all add: step_def render_timeout deliver_def deliver_frame init_frame unmount_def
        split: option.splits)

lemma no_rearm_run: "\<not> timeout st \<Longrightarrow> \<not> timeout (run env st evs)"
proof (induction evs arbitrary: st)
  case Nil
  then show ?case by (simp add: run_def)
next
  case (Cons ev evs)
  from Cons.IH [OF no_rearm [OF Cons.prems, of env ev]] show ?case
    by (simp add: run_def)
qed

subsection \<open>The sample screen, evaluated\<close>

lemma random_bytes_contract: "\<forall>n. \<exists>v. random_bytes n = Inr v \<and> length v = n"
  by (simp add: random_bytes_def random_string_def)

lemma first_attempt_failed_state:
  "first_attempt_failed = run sample_env (mount []) [TimerFire random_bytes (fails_with OtherValue)]"
  "mounted first_attempt_failed"
  "codeVerifier first_attempt_failed = Some (random_string 100)"
  "listeners first_attempt_failed = [Some (random_string 100)]"
  "showsError first_attempt_failed"
proof -
  have g: "random_bytes 100 = Inr (random_string 100)"
    by (simp add: random_bytes_def)
  have t: "timeout (mount [])"
    by (simp add: mount_def listenerEffect_def)
  show "first_attempt_failed =
      run sample_env (mount []) [TimerFire random_bytes (fails_with OtherValue)]"
    by (simp add: first_attempt_failed_def run_def)
  show "mounted first_attempt_failed"
    using t by (simp add: first_attempt_failed_def step_def render_def init_frame
        listenerEffect_def split: option.splits) (simp add: mount_def listenerEffect_def)
  show "codeVerifier first_attempt_failed = Some (random_string 100)"
    and "listeners first_attempt_failed = [Some (random_string 100)]"
    using attempt_step [where st = "mount []" and gen = random_bytes
        and verifier = "random_string 100" and opn = "fails_with OtherValue"
        and ev = "TimerFire random_bytes (fails_with OtherValue)" and env = sample_env,
        OF armed_mount g] t
    by (simp_all add: first_attempt_failed_def)
  have "error (init sample_env False random_bytes (fails_with OtherValue)
      ((mount [])\<lparr>timeout := False\<rparr>)) = ''The link failed to open. Please try again.''"
    using init_launch_failed [where gen = random_bytes and opn = "fails_with OtherValue",
        OF g, of sample_env OtherValue False "(mount [])\<lparr>timeout := False\<rparr>"]
    by (simp add: fails_with_def onError_def sample_formatMessage)
  then show "showsError first_attempt_failed"
    using t
    by (simp add: first_attempt_failed_def showsError_def step_def render_def
        listenerEffect_def split: option.splits)
qed

lemma random_string_nonempty: "random_string 100 \<noteq> []" "other_string 100 \<noteq> []"
  by (simp_all add: random_string_def other_string_def)

section \<open>The claims\<close>

subsection \<open>C1: a callback with only a challenge token\<close>




subsection \<open>C2: the verifier and its challenge\<close>

text \<open>
  C2, as the code has it. In every flow attempt in which the secure random source
  resolves, \<open>init\<close> asks the source for exactly 100 bytes and stores what it returns
  as the verifier (so 100 bytes, from a source that returns as many as it is asked
  for), and the \<open>code_challenge\<close> that url-parse reads from the URL that is opened
  is \<open>urlSafeBase64Encode (sha256 verifier)\<close> for that same verifier.
\<close>

theorem init_verifier_and_challenge:
  assumes "\<forall>n. \<exists>v. gen n = Inr v \<and> length v = n"
    and "\<forall>ch. reads_back env (loginQuery env ch)"
    and "st' = init env r gen opn st"
  shows "\<exists>verifier url. gen 100 = Inr verifier \<and> length verifier = 100
     \<and> codeVerifier st' = Some verifier
     \<and> calls st' = calls (resetErrorsStep env r st) @ [GenerateSecureRandom 100, TryOpenURL url]
     \<and> get_prop (url_query env (urlParse env url)) ''code_challenge'' =
         Some (urlSafeBase64Encode env (sha256 env verifier))"
proof -
  from assms(1) obtain verifier where g: "gen 100 = Inr verifier" and l: "length verifier = 100"
    by blast
  let ?q = "loginQuery env (codeChallengeOf env verifier)"
  have "url_query env (urlParse env (loginUrlWith env ?q)) = ?q"
    using assms(2) by (simp add: reads_back_url)
  then have "get_prop (url_query env (urlParse env (loginUrlWith env ?q))) ''code_challenge'' =
         Some (urlSafeBase64Encode env (sha256 env verifier))"
    by (simp add: loginQuery_code_challenge codeChallengeOf_def)
  moreover have "codeVerifier st' = Some verifier"
    using g assms(3) by (simp add: init_frame)
  moreover have "calls st' = calls (resetErrorsStep env r st) @
      [GenerateSecureRandom 100, TryOpenURL (loginUrlWith env ?q)]"
    using assms(3) calls_init_resolved [where gen = gen, OF g] by simp
  ultimately show ?thesis
    using g l by blast
qed

theorem init_verifier_and_challenge_witness:
  "codeVerifier (init sample_env False random_bytes opens (mount [])) = Some (random_string 100)
   \<and> length (random_string 100) = 100
   \<and> calls (init sample_env False random_bytes opens (mount [])) =
       [GenerateSecureRandom 100,
        TryOpenURL (''https://example.com/oauth/authorize?client_id=abc&redirect_to=mmauth-beta://callback&code_challenge=b64:sha256:'' @ random_string 100)]
   \<and> get_prop (url_query sample_env (urlParse sample_env
        (''https://example.com/oauth/authorize?client_id=abc&redirect_to=mmauth-beta://callback&code_challenge=b64:sha256:'' @ random_string 100)))
        ''code_challenge'' = Some (''b64:sha256:'' @ random_string 100)"
proof -
  let ?url = "''https://example.com/oauth/authorize?client_id=abc&redirect_to=mmauth-beta://callback&code_challenge=b64:sha256:'' @ random_string 100"
  have rb: "\<forall>ch. reads_back sample_env (loginQuery sample_env ch)"
    by (simp add: sample_reads_back)
  have g: "random_bytes 100 = Inr (random_string 100)"
    by (simp add: random_bytes_def)
  have c: "calls (init sample_env False random_bytes opens (mount [])) =
       [GenerateSecureRandom 100, TryOpenURL ?url]"
    by (simp add: calls_init_resolved [where gen = random_bytes, OF g] resetErrorsStep_def
          sample_loginQuery sample_loginUrlWith sample_codeChallengeOf)
       (simp add: mount_def listenerEffect_def)
  from init_verifier_and_challenge [OF random_bytes_contract rb refl, of False opens "mount []"]
  obtain verifier url where v: "random_bytes 100 = Inr verifier" and "length verifier = 100"
    and "codeVerifier (init sample_env False random_bytes opens (mount [])) = Some verifier"
    and u: "calls (init sample_env False random_bytes opens (mount [])) =
         calls (resetErrorsStep sample_env False (mount [])) @
           [GenerateSecureRandom 100, TryOpenURL url]"
    and "get_prop (url_query sample_env (urlParse sample_env url)) ''code_challenge'' =
         Some (urlSafeBase64Encode sample_env (sha256 sample_env verifier))"
    by blast
  moreover have "verifier = random_string 100"
    using v g by simp
  moreover have "url = ?url"
    using u c by simp
  ultimately show ?thesis
    using c by (simp add: sample_env_def)
qed

text \<open>
  C2 as stated fails for a flow attempt in which the random source rejects: \<open>init\<close>
  ends at line 83, no verifier is stored, no URL is built or opened, and the promise
  of \<open>init\<close> is rejected.
\<close>

theorem rejected_random_source_stores_no_verifier:
  "codeVerifier (init sample_env True (rejects OtherValue) opens (mount [])) = None
   \<and> calls (init sample_env True (rejects OtherValue) opens (mount [])) =
       [SetLoginError [], CreateClient ''https://example.com'', GenerateSecureRandom 100]
   \<and> rejections (init sample_env True (rejects OtherValue) opens (mount [])) = [OtherValue]"
proof -
  have g: "rejects OtherValue 100 = Inl OtherValue"
    by (simp add: rejects_def)
  show ?thesis
    by (simp add: init_rejected [where gen = "rejects OtherValue", OF g] initStart_def
          resetErrorsStep_def call_def sample_serverUrl mount_def listenerEffect_def)
qed

subsection \<open>C3: the query of the login URL\<close>

text \<open>
  C3, as the code has it. Read by url-parse from the URL that \<open>init\<close> builds for a
  verifier (and opens, when the random source has resolved with it), the query keeps
  every parameter of \<open>loginUrl\<close> whose key is neither \<open>redirect_to\<close> nor
  \<open>code_challenge\<close>; it has \<open>redirect_to\<close> equal to the custom scheme followed by
  \<open>callback\<close> and \<open>code_challenge\<close> equal to the challenge, whatever \<open>loginUrl\<close> had
  under these two keys; its keys are those of \<open>loginUrl\<close> and these two, and no key
  occurs twice.
\<close>

theorem login_query_merge:
  assumes "q0 = url_query env (urlParse env (loginUrl env))"
    and "distinct (map fst q0)"
    and "reads_back env (loginQuery env (codeChallengeOf env verifier))"
    and "url = loginUrlWith env (loginQuery env (codeChallengeOf env verifier))"
    and "q = url_query env (urlParse env url)"
  shows "(\<forall>k. k \<noteq> ''redirect_to'' \<and> k \<noteq> ''code_challenge'' \<longrightarrow> get_prop q k = get_prop q0 k)
     \<and> get_prop q ''redirect_to'' = Some (customUrlScheme env @ ''callback'')
     \<and> get_prop q ''code_challenge'' = Some (urlSafeBase64Encode env (sha256 env verifier))
     \<and> set (map fst q) = set (map fst q0) \<union> {''redirect_to'', ''code_challenge''}
     \<and> distinct (map fst q)
     \<and> (gen 100 = Inr verifier \<longrightarrow>
          calls (init env r gen opn st) =
            calls (resetErrorsStep env r st) @ [GenerateSecureRandom 100, TryOpenURL url])"
proof -
  let ?ch = "codeChallengeOf env verifier"
  have q: "q = loginQuery env ?ch"
    using assms(3,4,5) by (simp add: reads_back_url)
  have "gen 100 = Inr verifier \<Longrightarrow>
          calls (init env r gen opn st) =
            calls (resetErrorsStep env r st) @ [GenerateSecureRandom 100, TryOpenURL url]"
    using assms(4) by (simp add: calls_init_resolved)
  then show ?thesis
    using assms(1,2) loginQuery_distinct [of env ?ch] loginQuery_keys [of env ?ch]
    by (simp add: q loginQuery_other loginQuery_redirect_to loginQuery_code_challenge
          redirectUrl_def codeChallengeOf_def)
qed

text \<open>
  The scenario of the spec: \<open>https://example.com/oauth/authorize?client_id=abc\<close> and
  the scheme \<open>mmauth-beta://\<close>.
\<close>

theorem login_query_merge_witness:
  "url_query sample_env (urlParse sample_env
      (''https://example.com/oauth/authorize?client_id=abc&redirect_to=mmauth-beta://callback&code_challenge=b64:sha256:''
         @ random_string 100)) =
     [(''client_id'', ''abc''), (''redirect_to'', ''mmauth-beta://callback''),
      (''code_challenge'', ''b64:sha256:'' @ random_string 100)]
   \<and> get_prop (url_query sample_env (urlParse sample_env
      (''https://example.com/oauth/authorize?client_id=abc&redirect_to=mmauth-beta://callback&code_challenge=b64:sha256:''
         @ random_string 100))) ''client_id'' = Some ''abc''
   \<and> distinct (map fst (url_query sample_env (urlParse sample_env
      (''https://example.com/oauth/authorize?client_id=abc&redirect_to=mmauth-beta://callback&code_challenge=b64:sha256:''
         @ random_string 100))))"
proof -
  let ?url = "''https://example.com/oauth/authorize?client_id=abc&redirect_to=mmauth-beta://callback&code_challenge=b64:sha256:''
         @ random_string 100"
  have d: "distinct (map fst [(''client_id'', ''abc'')])"
    by simp
  have u: "?url = loginUrlWith sample_env
      (loginQuery sample_env (codeChallengeOf sample_env (random_string 100)))"
    by (simp add: sample_loginQuery sample_loginUrlWith sample_codeChallengeOf)
  have c: "get_prop [(''client_id'', ''abc'')] ''client_id'' = Some ''abc''"
    by (simp add: get_prop_def)
  have "get_prop (url_query sample_env (urlParse sample_env ?url)) ''client_id'' = Some ''abc''
      \<and> distinct (map fst (url_query sample_env (urlParse sample_env ?url)))"
    using login_query_merge [OF sample_login_query [symmetric] d sample_reads_back u refl] c
    by simp
  then show ?thesis
    using sample_built_query [of "''b64:sha256:'' @ random_string 100"] by simp
qed

text \<open>
  C3 as stated fails for a \<open>loginUrl\<close> that already has \<open>redirect_to\<close>: the parameter
  \<open>redirect_to=elsewhere\<close> is not preserved, its value is overwritten in the query and
  in the URL built from it.
\<close>

theorem login_query_overwrites_redirect_to:
  "get_prop (url_query sample_env (urlParse sample_env
       ''https://example.com/oauth/authorize?redirect_to=elsewhere'')) ''redirect_to''
     = Some ''elsewhere''
   \<and> loginQuery
       (sample_env\<lparr>loginUrl := ''https://example.com/oauth/authorize?redirect_to=elsewhere''\<rparr>)
       ''challenge''
     = [(''redirect_to'', ''mmauth-beta://callback''), (''code_challenge'', ''challenge'')]
   \<and> loginUrlWith
       (sample_env\<lparr>loginUrl := ''https://example.com/oauth/authorize?redirect_to=elsewhere''\<rparr>)
       [(''redirect_to'', ''mmauth-beta://callback''), (''code_challenge'', ''challenge'')]
     = ''https://example.com/oauth/authorize?redirect_to=mmauth-beta://callback&code_challenge=challenge''"
  by (simp add: loginQuery_def loginUrlWith_def redirectUrl_def customUrlScheme_def get_prop_def
        sample_env_def sample_parse_def)

subsection \<open>C4: a callback with the tokens themselves\<close>

text \<open>
  C4, as the code has it. In every state a mounted screen can reach, a URL-open event
  whose URL starts with the redirect URL and carries a non-empty \<open>MMAUTHTOKEN\<close> and a
  non-empty \<open>MMCSRF\<close>, and for which no exchange is due (no non-empty
  \<open>MMCHALLENGETOKEN\<close>, or no non-empty current verifier), calls \<open>doSSOLogin\<close> once,
  with exactly that pair, and calls nothing else. The screen itself discards nothing
  afterwards: its listener stays registered, and each of \<open>n\<close> such events calls
  \<open>doSSOLogin\<close> again.
\<close>

theorem direct_tokens_login_each_event:
  assumes "st = run env (mount le) evs" and "mounted st"
    and "prefix (redirectUrl env) url"
    and "q = url_query env (urlParse env url)"
    and "get_prop q ''MMAUTHTOKEN'' = Some bearer" and "bearer \<noteq> []"
    and "get_prop q ''MMCSRF'' = Some csrf" and "csrf \<noteq> []"
    and "\<not> (truthy (get_prop q ''MMCHALLENGETOKEN'') \<and> truthy (codeVerifier st))"
  shows "step env st (UrlOpen url fetch) = call (DoSSOLogin bearer csrf) st
     \<and> listeners (step env st (UrlOpen url fetch)) = listeners st
     \<and> calls (run env st (replicate n (UrlOpen url fetch))) =
         calls st @ replicate n (DoSSOLogin bearer csrf)"
proof -
  note a = assms(3) assms(5-9) [unfolded assms(4)]
  have ar: "armed st"
    using assms(1,2) mounted_reachable_armed [of env le evs] by simp
  have s: "step env st (UrlOpen url fetch) = call (DoSSOLogin bearer csrf) st"
    using direct_login_step [OF a, of fetch st] ar by (simp add: step_UrlOpen_armed)
  have "calls (run env st (replicate n (UrlOpen url fetch))) =
         calls st @ replicate n (DoSSOLogin bearer csrf)"
    using direct_login_run [OF a ar refl] by simp
  then show ?thesis
    using s by (simp add: call_def)
qed

text \<open>
  The scenario of the spec: \<open>mmauth-beta://callback?MMAUTHTOKEN=tok1&MMCSRF=csrf1\<close>.
\<close>

theorem direct_tokens_login_each_event_witness:
  "calls (step sample_env (mount [])
      (UrlOpen ''mmauth-beta://callback?MMAUTHTOKEN=tok1&MMCSRF=csrf1''
         (exchange_gives ErrorResponse)))
     = [DoSSOLogin ''tok1'' ''csrf1'']"
proof -
  let ?q = "[(''MMAUTHTOKEN'', ''tok1''), (''MMCSRF'', ''csrf1'')]"
  have r: "mount [] = run sample_env (mount []) []"
    by (simp add: run_def)
  have m: "mounted (mount [])"
    by (simp add: mount_def listenerEffect_def)
  have p: "prefix (redirectUrl sample_env) ''mmauth-beta://callback?MMAUTHTOKEN=tok1&MMCSRF=csrf1''"
    by (simp add: sample_redirectUrl)
  have b: "get_prop ?q ''MMAUTHTOKEN'' = Some ''tok1''"
    and c: "get_prop ?q ''MMCSRF'' = Some ''csrf1''"
    and t: "\<not> (truthy (get_prop ?q ''MMCHALLENGETOKEN'') \<and> truthy (codeVerifier (mount [])))"
    by (simp_all add: get_prop_def truthy_def)
  have n: "''tok1'' \<noteq> []" and k: "''csrf1'' \<noteq> []"
    by simp_all
  show ?thesis
    using direct_tokens_login_each_event
      [OF r m p sample_direct_query [symmetric] b n c k t, of "exchange_gives ErrorResponse" 1]
    by (simp add: call_def mount_def listenerEffect_def)
qed

text \<open>
  C4 as stated fails twice. A second callback of the same attempt calls \<open>doSSOLogin\<close>
  a second time; and a callback that carries both tokens and a challenge token, while
  a verifier is current, does make the exchange and logs in with the exchanged pair.
\<close>

theorem second_callback_logs_in_again:
  "calls (run sample_env (mount [])
      [UrlOpen ''mmauth-beta://callback?MMAUTHTOKEN=tok1&MMCSRF=csrf1''
         (exchange_gives ErrorResponse),
       UrlOpen ''mmauth-beta://callback?MMAUTHTOKEN=tok1&MMCSRF=csrf1''
         (exchange_gives ErrorResponse)])
     = [DoSSOLogin ''tok1'' ''csrf1'', DoSSOLogin ''tok1'' ''csrf1'']
   \<and> calls (onURLChange sample_env (Some ''verifier'')
        (exchange_gives (TokenResponse ''tok2'' ''csrf2''))
        ''mmauth-beta://callback?MMAUTHTOKEN=tok1&MMCSRF=csrf1&MMCHALLENGETOKEN=chal1'' (mount []))
     = [FetchSessionTokenFromCodeChallenge ''https://example.com'' ''chal1'' ''verifier'',
        DoSSOLogin ''tok2'' ''csrf2'']"
  by (simp add: run_def step_def deliver_def render_def onURLChange_def sample_redirectUrl
        sample_direct_query sample_all_query get_prop_def
        truthy_def exchange_gives_def loginOrFail_def call_def mount_def listenerEffect_def
        sample_serverUrl sample_formatMessage)

subsection \<open>C5: a URL that is not the callback\<close>

text \<open>
  C5. For every URL-open event whose URL does not start with the redirect URL (in
  particular every URL that does not start with the custom scheme), the handler
  returns the state it was given: no call is made, \<open>error\<close> is unchanged, and the
  listener stays registered; in a state the screen can reach the render that follows
  changes nothing either.
\<close>

theorem mismatched_url_ignored:
  assumes "\<not> prefix (redirectUrl env) url"
  shows "onURLChange env cv fetch url st = st
     \<and> handle env st (UrlOpen url fetch) = st
     \<and> step env (run env (mount le) evs) (UrlOpen url fetch) = run env (mount le) evs"
  using assms
  by (simp add: onURLChange_def deliver_def foldl_unchanged step_def render_reachable)

text \<open>The scenario of the spec: the callback \<open>other-scheme://foo\<close>.\<close>

theorem mismatched_url_ignored_witness:
  "\<not> prefix (redirectUrl sample_env) ''other-scheme://foo''
   \<and> handle sample_env (mount []) (UrlOpen ''other-scheme://foo''
        (exchange_gives (TokenResponse ''tok2'' ''csrf2''))) = mount []"
proof -
  have n: "\<not> prefix (redirectUrl sample_env) ''other-scheme://foo''"
    by (simp add: sample_redirectUrl)
  show ?thesis
    using n mismatched_url_ignored [OF n] by simp
qed

subsection \<open>C6: after the screen is unmounted\<close>

text \<open>
  C6. Whatever happened to the screen before it was unmounted, every event after the
  unmount leaves the state as the unmount left it: no listener is registered and no
  timer is pending, so no URL-open event and no timer makes any call, \<open>doSSOLogin\<close>
  included.
\<close>

theorem no_login_after_unmount:
  "run env (mount le) (evs @ Unmount # evs') = run env (mount le) (evs @ [Unmount])
   \<and> listeners (run env (mount le) (evs @ [Unmount])) = []
   \<and> \<not> timeout (run env (mount le) (evs @ [Unmount]))
   \<and> calls (run env (mount le) (evs @ Unmount # evs')) = calls (run env (mount le) evs)"
proof -
  let ?st = "run env (mount le) (evs @ [Unmount])"
  have t: "torn_down ?st" by (rule unmount_torn_down)
  have "run env (mount le) (evs @ Unmount # evs') = run env ?st evs'"
    using run_append [of env "mount le" "evs @ [Unmount]" evs'] by simp
  then have r: "run env (mount le) (evs @ Unmount # evs') = ?st"
    using run_torn_down [OF t] by simp
  have c: "calls ?st = calls (run env (mount le) evs)"
    by (simp add: run_def step_def render_def unmount_def split: option.splits)
  show ?thesis
    using r t c by (simp add: torn_down_def)
qed

text \<open>
  A screen unmounted while its timer is pending: the timer does not fire, and a
  callback with both tokens delivered afterwards calls nothing.
\<close>

theorem no_login_after_unmount_witness:
  "calls (run sample_env (mount [])
      ([] @ Unmount #
        [TimerFire random_bytes opens,
         UrlOpen ''mmauth-beta://callback?MMAUTHTOKEN=tok1&MMCSRF=csrf1''
           (exchange_gives ErrorResponse)])) = []"
proof -
  have c: "calls (run sample_env (mount []) []) = []"
    by (simp add: run_def mount_def listenerEffect_def)
  have "calls (run sample_env (mount [])
      ([] @ Unmount #
        [TimerFire random_bytes opens,
         UrlOpen ''mmauth-beta://callback?MMAUTHTOKEN=tok1&MMCSRF=csrf1''
           (exchange_gives ErrorResponse)])) = calls (run sample_env (mount []) [])"
    using no_login_after_unmount [of sample_env "[]" "[]"
        "[TimerFire random_bytes opens,
          UrlOpen ''mmauth-beta://callback?MMAUTHTOKEN=tok1&MMCSRF=csrf1''
            (exchange_gives ErrorResponse)]"]
    by blast
  then show ?thesis
    by (simp only: c)
qed

subsection \<open>C7: one verifier, one listener\<close>

text \<open>
  C7, as the code has it. In every state a mounted screen can reach between events
  there is exactly one listener, the closure over the current verifier. When a flow
  attempt has stored its verifier (line 85) and \<open>init\<close> is suspended at line 86, the
  listener is still the closure over the prior verifier, and a URL-open event handled
  then runs that closure, with the prior verifier. The render that follows removes
  that listener and registers the closure over the new verifier, exactly one again;
  a URL-open event handled from then on runs that closure only, and when it exchanges
  a challenge token it passes the new verifier, in the only exchange call it makes.
  An attempt run without interruption (the timer firing, or ``Try again'', with the
  random source resolving) ends with the new verifier stored and its closure as the
  only listener.
\<close>

theorem callback_uses_current_verifier:
  assumes "st = run env (mount le) evs" and "mounted st"
    and "st1 = initVerifier verifier (initStart env r st)"
  shows "listeners st = [codeVerifier st]
     \<and> codeVerifier st1 = Some verifier
     \<and> listeners st1 = [codeVerifier st]
     \<and> handle env st1 (UrlOpen url fetch) = onURLChange env (codeVerifier st) fetch url st1
     \<and> listeners (render st1) = [Some verifier]
     \<and> handle env (render st1) (UrlOpen url fetch) =
         onURLChange env (Some verifier) fetch url (render st1)
     \<and> (prefix (redirectUrl env) url
          \<and> get_prop (url_query env (urlParse env url)) ''MMCHALLENGETOKEN'' = Some challenge
          \<and> challenge \<noteq> [] \<and> verifier \<noteq> [] \<longrightarrow>
        (\<exists>rest. calls (handle env (render st1) (UrlOpen url fetch)) =
            calls st1 @
              FetchSessionTokenFromCodeChallenge (serverUrl env) challenge verifier # rest
          \<and> (\<forall>s t v. FetchSessionTokenFromCodeChallenge s t v \<notin> set rest)))
     \<and> (gen 100 = Inr verifier
          \<and> (ev = TimerFire gen opn \<and> timeout st \<or> ev = PressTryAgain gen opn \<and> showsError st)
          \<longrightarrow> codeVerifier (step env st ev) = Some verifier
              \<and> listeners (step env st ev) = [Some verifier])
     \<and> (gen 100 = Inr verifier \<and> r \<and> showsError st \<longrightarrow>
          step env st (PressTryAgain gen opn) = initOpen env verifier opn (render st1))"
proof -
  have a: "armed st"
    using assms(1,2) mounted_reachable_armed [of env le evs] by simp
  note s = suspended_then_rendered [OF a assms(3)]
  have h1: "handle env st1 (UrlOpen url fetch) = onURLChange env (codeVerifier st) fetch url st1"
    using s(2) by (simp add: deliver_armed)
  have h2: "handle env (render st1) (UrlOpen url fetch) =
         onURLChange env (Some verifier) fetch url (render st1)"
    using s(4) by (simp add: deliver_armed)
  have x: "prefix (redirectUrl env) url
          \<and> get_prop (url_query env (urlParse env url)) ''MMCHALLENGETOKEN'' = Some challenge
          \<and> challenge \<noteq> [] \<and> verifier \<noteq> [] \<longrightarrow>
        (\<exists>rest. calls (handle env (render st1) (UrlOpen url fetch)) =
            calls st1 @
              FetchSessionTokenFromCodeChallenge (serverUrl env) challenge verifier # rest
          \<and> (\<forall>s t v. FetchSessionTokenFromCodeChallenge s t v \<notin> set rest))"
    using exchange_call_made [of env url challenge verifier fetch "render st1"] s(6)
    by (simp only: h2) simp
  have f: "gen 100 = Inr verifier
          \<and> (ev = TimerFire gen opn \<and> timeout st \<or> ev = PressTryAgain gen opn \<and> showsError st)
          \<longrightarrow> codeVerifier (step env st ev) = Some verifier
              \<and> listeners (step env st ev) = [Some verifier]"
    using attempt_step [OF a, of gen verifier ev opn env] by blast
  have p: "gen 100 = Inr verifier \<and> r \<and> showsError st \<longrightarrow>
          step env st (PressTryAgain gen opn) = initOpen env verifier opn (render st1)"
    using a assms(3)
    by (simp add: step_def init_resolved render_initOpen armed_def)
  show ?thesis
    using a s(1,2,4) h1 h2 x f p by (simp only: armed_def)
qed

text \<open>
  The sample screen after a failed first attempt, in its retry: once React has
  rendered, the callback is exchanged with the verifier of the retry.
\<close>

theorem callback_uses_current_verifier_witness:
  "listeners (render retry_suspended) = [Some (other_string 100)]
   \<and> (\<exists>rest. calls (handle sample_env (render retry_suspended)
         (UrlOpen ''mmauth-beta://callback?MMCHALLENGETOKEN=chal1'' (exchange_gives ErrorResponse))) =
       calls retry_suspended @
         FetchSessionTokenFromCodeChallenge ''https://example.com'' ''chal1'' (other_string 100) # rest)"
proof -
  have c: "prefix (redirectUrl sample_env) ''mmauth-beta://callback?MMCHALLENGETOKEN=chal1''
      \<and> get_prop (url_query sample_env
           (urlParse sample_env ''mmauth-beta://callback?MMCHALLENGETOKEN=chal1''))
           ''MMCHALLENGETOKEN'' = Some ''chal1''
      \<and> ''chal1'' \<noteq> [] \<and> other_string 100 \<noteq> []"
    by (simp add: sample_redirectUrl sample_challenge_query get_prop_def random_string_nonempty)
  have "listeners (render retry_suspended) = [Some (other_string 100)]
   \<and> (\<exists>rest. calls (handle sample_env (render retry_suspended)
         (UrlOpen ''mmauth-beta://callback?MMCHALLENGETOKEN=chal1'' (exchange_gives ErrorResponse))) =
       calls retry_suspended @
         FetchSessionTokenFromCodeChallenge (serverUrl sample_env) ''chal1'' (other_string 100)
           # rest)"
    using callback_uses_current_verifier
      [OF first_attempt_failed_state(1,2) retry_suspended_def,
       of "''mmauth-beta://callback?MMCHALLENGETOKEN=chal1''" "exchange_gives ErrorResponse"
          "''chal1''"] c
    by blast
  then show ?thesis
    by (simp only: sample_serverUrl)
qed

text \<open>
  C7 as stated fails for a callback handled after the retry has generated and stored
  its verifier and before React has rendered: it is exchanged with the verifier of
  the first attempt. And an attempt whose random source rejects does not replace the
  stored verifier.
\<close>

theorem callback_before_render_uses_stale_verifier:
  "codeVerifier retry_suspended = Some (other_string 100)
   \<and> listeners retry_suspended = [Some (random_string 100)]
   \<and> random_string 100 \<noteq> other_string 100
   \<and> calls (handle sample_env retry_suspended
        (UrlOpen ''mmauth-beta://callback?MMCHALLENGETOKEN=chal1'' (exchange_gives ErrorResponse))) =
      calls retry_suspended @
        [FetchSessionTokenFromCodeChallenge ''https://example.com'' ''chal1'' (random_string 100)]
   \<and> codeVerifier (step sample_env first_attempt_failed
        (PressTryAgain (rejects OtherValue) opens)) = Some (random_string 100)"
proof -
  have v: "codeVerifier retry_suspended = Some (other_string 100)"
    and l: "listeners retry_suspended = [Some (random_string 100)]"
    by (simp_all add: retry_suspended_def initVerifier_def initStart_frame
          first_attempt_failed_state(4))
  have n: "random_string 100 \<noteq> other_string 100"
    by (simp add: random_string_def other_string_def)
  have "handle sample_env retry_suspended
        (UrlOpen ''mmauth-beta://callback?MMCHALLENGETOKEN=chal1'' (exchange_gives ErrorResponse)) =
      onURLChange sample_env (Some (random_string 100)) (exchange_gives ErrorResponse)
        ''mmauth-beta://callback?MMCHALLENGETOKEN=chal1'' retry_suspended"
    using l by (simp add: deliver_armed)
  then have c: "calls (handle sample_env retry_suspended
        (UrlOpen ''mmauth-beta://callback?MMCHALLENGETOKEN=chal1'' (exchange_gives ErrorResponse))) =
      calls retry_suspended @
        [FetchSessionTokenFromCodeChallenge ''https://example.com'' ''chal1'' (random_string 100)]"
    using random_string_nonempty(1)
    by (simp add: onURLChange_def sample_redirectUrl sample_challenge_query get_prop_def
          truthy_def exchange_gives_def loginOrFail_def call_def sample_serverUrl)
  have g: "rejects OtherValue 100 = Inl OtherValue"
    by (simp add: rejects_def)
  have "codeVerifier (step sample_env first_attempt_failed
        (PressTryAgain (rejects OtherValue) opens)) = Some (random_string 100)"
    using first_attempt_failed_state(2,3,4,5) g
    by (simp add: step_def render_def listenerEffect_def init_frame split: option.splits)
  then show ?thesis
    using v l n c by simp
qed

subsection \<open>C8: the deferred first attempt\<close>

text \<open>
  C8, as the code has it. The first mount starts the timer whatever \<open>loginError\<close> is,
  and makes no call by itself. When the timer fires it runs \<open>init(false)\<close>, once: the
  attempt leaves \<open>loginError\<close> as it was, and no later event starts the timer again.
\<close>

theorem mount_schedules_one_attempt:
  "timeout (mount le)
   \<and> calls (mount le) = []
   \<and> handle env (mount le) (TimerFire gen opn) =
       init env False gen opn ((mount le)\<lparr>timeout := False\<rparr>)
   \<and> loginError (step env (mount le) (TimerFire gen opn)) = le
   \<and> \<not> timeout (run env (step env (mount le) (TimerFire gen opn)) evs)"
proof -
  have t: "timeout (mount le)" and c: "calls (mount le) = []"
    by (simp_all add: mount_def listenerEffect_def)
  have l: "loginError (step env (mount le) (TimerFire gen opn)) = le"
    using t
    by (simp add: step_def render_loginError init_frame)
       (simp add: mount_def listenerEffect_def)
  have "\<not> timeout (step env (mount le) (TimerFire gen opn))"
    using t by (simp add: step_def render_timeout init_frame)
  then have "\<not> timeout (run env (step env (mount le) (TimerFire gen opn)) evs)"
    by (rule no_rearm_run)
  then show ?thesis
    using t c l by simp
qed

text \<open>
  C8 as stated fails when the screen is mounted with a login error: the timer is
  pending all the same, and when it fires the verifier is generated and the browser
  is launched.
\<close>

theorem timer_scheduled_despite_login_error:
  "timeout (mount ''Login failed'')
   \<and> calls (step sample_env (mount ''Login failed'') (TimerFire random_bytes opens)) =
       [GenerateSecureRandom 100,
        TryOpenURL (''https://example.com/oauth/authorize?client_id=abc&redirect_to=mmauth-beta://callback&code_challenge=b64:sha256:'' @ random_string 100)]"
proof -
  have g: "random_bytes 100 = Inr (random_string 100)"
    by (simp add: random_bytes_def)
  have t: "timeout (mount ''Login failed'')"
    by (simp add: mount_def listenerEffect_def)
  have "calls (init sample_env False random_bytes opens ((mount ''Login failed'')\<lparr>timeout := False\<rparr>))
     = [GenerateSecureRandom 100,
        TryOpenURL (''https://example.com/oauth/authorize?client_id=abc&redirect_to=mmauth-beta://callback&code_challenge=b64:sha256:'' @ random_string 100)]"
    by (simp add: calls_init_resolved [where gen = random_bytes, OF g] resetErrorsStep_def
          sample_loginQuery
          sample_loginUrlWith sample_codeChallengeOf)
       (simp add: mount_def listenerEffect_def)
  then show ?thesis
    using t
    by (simp add: step_def render_def init_frame)
       (simp add: listenerEffect_def split: option.splits)
qed

subsection \<open>C9: a browser that does not open\<close>

text \<open>
  C9, as the code has it. When the random source has resolved and the launch of the
  URL that \<open>init\<close> opens fails with \<open>e\<close>, \<open>init\<close> ends with \<open>error\<close> set to the
  ``no browser'' message if the platform reports that no activity was found to handle
  the intent (the platform is Android and \<open>e\<close> has a message in which
  \<open>no activity found to handle intent\<close> occurs, in any letter case), and to the
  generic ``failed to open'' message for any other failure. The promise of \<open>init\<close> is
  not rejected. The screen displays that message, followed by a period, when no
  \<open>loginError\<close> of the caller is present (a manual retry has cleared it); a
  \<open>loginError\<close> that is present is displayed in its place.
\<close>

theorem launch_failure_classified:
  assumes "gen 100 = Inr verifier"
    and "st' = init env r gen opn st"
    and "last (calls st') = TryOpenURL url"
    and "opn url = Some e"
  shows "error st' =
     (if platformOS env = ''android'' \<and> isErrorWithMessage e \<and>
         match_ignore_case ''no activity found to handle intent'' (message_of e)
      then formatMessage env ''mobile.oauth.failed_to_open_link_no_browser''
             ''The link failed to open. Please verify that a browser is installed on the device.''
      else formatMessage env ''mobile.oauth.failed_to_open_link''
             ''The link failed to open. Please try again.'')
     \<and> rejections st' = rejections st
     \<and> loginError st' = (if r then [] else loginError st)
     \<and> (loginError st' = [] \<and> error st' \<noteq> [] \<longrightarrow> displayedError st' = Some (error st' @ ''.''))
     \<and> (loginError st' \<noteq> [] \<longrightarrow> displayedError st' = Some (loginError st' @ ''.''))"
proof -
  have u: "url = loginUrlWith env (loginQuery env (codeChallengeOf env verifier))"
    using assms(2,3) calls_init_resolved [where gen = gen, OF assms(1), of env r opn st]
    by simp
  have "isErrorWithMessage e \<Longrightarrow> e \<noteq> Falsy"
    by (cases e) simp_all
  then have "error (onError env e st) =
     (if platformOS env = ''android'' \<and> isErrorWithMessage e \<and>
         match_ignore_case ''no activity found to handle intent'' (message_of e)
      then formatMessage env ''mobile.oauth.failed_to_open_link_no_browser''
             ''The link failed to open. Please verify that a browser is installed on the device.''
      else formatMessage env ''mobile.oauth.failed_to_open_link''
             ''The link failed to open. Please try again.'')"
    by (auto simp add: onError_def)
  then show ?thesis
    using init_launch_failed [where gen = gen and opn = opn, OF assms(1), of env e r st]
      assms(2,4) u rejections_init_resolved [where gen = gen, OF assms(1), of env r opn st]
    by (simp add: displayedError_def showsError_def init_frame)
qed

theorem launch_failure_classified_witness:
  "error (init sample_env True random_bytes
       (fails_with (ErrorWithMessage
          ''No Activity found to handle Intent { act=android.intent.action.VIEW }''))
       (mount [])) =
     ''The link failed to open. Please verify that a browser is installed on the device.''
   \<and> displayedError (init sample_env True random_bytes
       (fails_with (ErrorWithMessage
          ''No Activity found to handle Intent { act=android.intent.action.VIEW }''))
       (mount [])) =
     Some ''The link failed to open. Please verify that a browser is installed on the device..''
   \<and> rejections (init sample_env True random_bytes
       (fails_with (ErrorWithMessage
          ''No Activity found to handle Intent { act=android.intent.action.VIEW }''))
       (mount [])) = []"
proof -
  let ?e = "ErrorWithMessage
          ''No Activity found to handle Intent { act=android.intent.action.VIEW }''"
  let ?url = "loginUrlWith sample_env (loginQuery sample_env
          (codeChallengeOf sample_env (random_string 100)))"
  have g: "random_bytes 100 = Inr (random_string 100)"
    by (simp add: random_bytes_def)
  have l: "last (calls (init sample_env True random_bytes (fails_with ?e) (mount []))) =
      TryOpenURL ?url"
    by (simp add: calls_init_resolved [where gen = random_bytes, OF g])
  have f: "fails_with ?e ?url = Some ?e"
    by (simp add: fails_with_def)
  have p: "platformOS sample_env = ''android''"
    by (simp add: sample_env_def)
  have m: "rejections (mount []) = []"
    by (simp add: mount_def listenerEffect_def)
  show ?thesis
    using launch_failure_classified [where gen = random_bytes and opn = "fails_with ?e",
        OF g refl l f] no_activity_matches p m
    by (simp add: sample_formatMessage)
qed

text \<open>
  C9 as stated fails when the screen was mounted with a login error: the deferred
  attempt keeps it, the launch failure sets \<open>error\<close>, and the text displayed is the
  login error, not the launch failure.
\<close>

theorem login_error_hides_launch_error:
  "error (step sample_env (mount ''Login failed'')
       (TimerFire random_bytes (fails_with (ErrorWithMessage
          ''No Activity found to handle Intent { act=android.intent.action.VIEW }'')))) =
     ''The link failed to open. Please verify that a browser is installed on the device.''
   \<and> displayedError (step sample_env (mount ''Login failed'')
       (TimerFire random_bytes (fails_with (ErrorWithMessage
          ''No Activity found to handle Intent { act=android.intent.action.VIEW }'')))) =
     Some ''Login failed.''"
proof -
  let ?e = "ErrorWithMessage
          ''No Activity found to handle Intent { act=android.intent.action.VIEW }''"
  let ?st = "(mount ''Login failed'')\<lparr>timeout := False\<rparr>"
  let ?st' = "init sample_env False random_bytes (fails_with ?e) ?st"
  have g: "random_bytes 100 = Inr (random_string 100)"
    by (simp add: random_bytes_def)
  have t: "timeout (mount ''Login failed'')" and m: "mounted (mount ''Login failed'')"
    and le: "loginError (mount ''Login failed'') = ''Login failed''"
    by (simp_all add: mount_def listenerEffect_def)
  have e: "error ?st' =
     ''The link failed to open. Please verify that a browser is installed on the device.''"
    using init_launch_failed [where gen = random_bytes and opn = "fails_with ?e",
        OF g, of sample_env ?e False ?st] no_activity_matches
    by (simp add: fails_with_def onError_def sample_formatMessage)
       (simp add: sample_env_def)
  have l: "loginError ?st' = ''Login failed''"
    using le by (simp add: init_frame)
  have r: "error (render ?st') = error ?st'" "loginError (render ?st') = loginError ?st'"
    by (simp_all add: render_def listenerEffect_def split: option.splits)
  show ?thesis
    using t e l r by (simp add: step_def displayedError_def showsError_def)
qed

subsection \<open>C10: a callback with a challenge token and the tokens themselves\<close>




end
